theory Spec2Isabelle
  imports Main "HOL-Library.Word" "HOL-Library.Signed_Division"
begin

unbundle bit_operations_syntax

section \<open>Wire messages (TdlMessages.h)\<close>

text \<open>
  The message structs are fixed-layout C++ structs that travel as their raw object
  bytes. Integers are \<open>uint32_t\<close>, modelled as \<open>32 word\<close>. A \<open>double\<close> is
  modelled by its 64-bit object representation (\<open>64 word\<close>): the program only copies
  and stores these values on the paths studied here, it never computes with them.
\<close>

type_synonym byte = "8 word"

definition POSITION_REPORT_TYPE :: "32 word" where
  "POSITION_REPORT_TYPE = 1"

definition HEARTBEAT_TYPE :: "32 word" where
  "HEARTBEAT_TYPE = 2"

definition TEXT_MESSAGE_TYPE :: "32 word" where
  "TEXT_MESSAGE_TYPE = 3"

record MessageHeader =
  messageType :: "32 word"
  sourceNodeId :: "32 word"

record PositionReport =
  header :: MessageHeader
  latitude :: "64 word"
  longitude :: "64 word"
  altitude :: "64 word"

text \<open>\<open>PositionReport()\<close>: member initialisers, then the constructor body sets the type.
  The bit pattern of \<open>0.0\<close> is all zeros.\<close>

definition PositionReport_ctor :: PositionReport where
  "PositionReport_ctor =
     \<lparr>header = \<lparr>messageType = POSITION_REPORT_TYPE, sourceNodeId = 0\<rparr>,
      latitude = 0, longitude = 0, altitude = 0\<rparr>"

definition MAX_TEXT_MSG_LENGTH :: nat where
  "MAX_TEXT_MSG_LENGTH = 64"

text \<open>The struct sizes: two \<open>uint32_t\<close> in the header; the header and three doubles
  (alignment 8, no padding); the header alone; the header and the text buffer.\<close>

definition sizeof_MessageHeader :: nat where
  "sizeof_MessageHeader = 8"

definition sizeof_PositionReport :: nat where
  "sizeof_PositionReport = 32"

definition sizeof_HeartbeatMessage :: nat where
  "sizeof_HeartbeatMessage = 8"

definition sizeof_TextMessage :: nat where
  "sizeof_TextMessage = 8 + MAX_TEXT_MSG_LENGTH"

text \<open>Time points of \<open>std::chrono::steady_clock\<close> are tick counts held in a signed
  64-bit integer; the clock of the target platform (the program is written against
  Winsock) ticks in nanoseconds. A time point is modelled by its tick count; the
  difference of two time points is again a signed 64-bit count, so it wraps around
  (\<open>duration_minus\<close>). \<open>duration_cast<seconds>\<close> divides by the ticks per second,
  truncating towards zero.\<close>

type_synonym time_point = int

definition steady_clock_ticks_per_second :: int where
  "steady_clock_ticks_per_second = 1000000000"

definition duration_minus :: "time_point \<Rightarrow> time_point \<Rightarrow> int" where
  "duration_minus a b = signed_take_bit 63 (a - b)"

definition duration_cast_seconds :: "int \<Rightarrow> int" where
  "duration_cast_seconds d = d sdiv steady_clock_ticks_per_second"

record NodeInfo =
  nodeId :: "32 word"
  lastPosition :: PositionReport
  lastHeardTime :: time_point

text \<open>\<open>NodeInfo(id, time)\<close>: the default position report with the source id filled in
  and the three coordinates zeroed.\<close>

definition NodeInfo_ctor :: "32 word \<Rightarrow> time_point \<Rightarrow> NodeInfo" where
  "NodeInfo_ctor ident time =
     \<lparr>nodeId = ident,
      lastPosition = PositionReport_ctor
        \<lparr>header := (header PositionReport_ctor)\<lparr>sourceNodeId := ident\<rparr>,
         latitude := 0, longitude := 0, altitude := 0\<rparr>,
      lastHeardTime = time\<rparr>"

definition updatePosition :: "NodeInfo \<Rightarrow> PositionReport \<Rightarrow> NodeInfo" where
  "updatePosition n report = n\<lparr>lastPosition := report\<rparr>"

section \<open>The ordered map behind the registry\<close>

text \<open>
  \<open>std::map<uint32_t, NodeInfo>\<close> is modelled as an association list kept in
  strictly increasing key order, which is also the order in which the program iterates
  over the map. \<open>map_find\<close> is \<open>find\<close>, \<open>map_assign\<close> is \<open>m[k] = v\<close> and
  \<open>map_erase\<close> is \<open>erase(k)\<close>.
\<close>

type_synonym node_map = "(32 word \<times> NodeInfo) list"

fun map_find :: "'k \<Rightarrow> ('k \<times> 'v) list \<Rightarrow> 'v option" where
  "map_find k [] = None"
| "map_find k ((k', v) # ps) = (if k = k' then Some v else map_find k ps)"

fun map_assign :: "'k::linorder \<Rightarrow> 'v \<Rightarrow> ('k \<times> 'v) list \<Rightarrow> ('k \<times> 'v) list" where
  "map_assign k v [] = [(k, v)]"
| "map_assign k v ((k', v') # ps) =
     (if k < k' then (k, v) # (k', v') # ps
      else if k = k' then (k, v) # ps
      else (k', v') # map_assign k v ps)"

fun map_erase :: "'k \<Rightarrow> ('k \<times> 'v) list \<Rightarrow> ('k \<times> 'v) list" where
  "map_erase k [] = []"
| "map_erase k ((k', v) # ps) = (if k = k' then map_erase k ps else (k', v) # map_erase k ps)"

definition map_ok :: "('k::linorder \<times> 'v) list \<Rightarrow> bool" where
  "map_ok m = sorted_wrt (<) (map fst m)"

section \<open>The peer registry (NodeManager.cpp)\<close>

text \<open>
  The mutex makes every member function one atomic step on the map, so each is a
  function from the registry state to the next one. The functions read the steady clock
  themselves; the reading is the argument \<open>now\<close>. Console output is not part of the
  state.
\<close>

record NodeManager =
  m_selfNodeId :: "32 word"
  m_nodeMap :: node_map

definition NodeManager_ctor :: "32 word \<Rightarrow> NodeManager" where
  "NodeManager_ctor selfNodeId = \<lparr>m_selfNodeId = selfNodeId, m_nodeMap = []\<rparr>"

definition getSelfNodeId :: "NodeManager \<Rightarrow> 32 word" where
  "getSelfNodeId mgr = m_selfNodeId mgr"

definition updateNodePosition :: "NodeManager \<Rightarrow> PositionReport \<Rightarrow> time_point \<Rightarrow> NodeManager" where
  "updateNodePosition mgr report now =
     (if sourceNodeId (header report) = m_selfNodeId mgr then mgr
      else
        (case map_find (sourceNodeId (header report)) (m_nodeMap mgr) of
           None \<Rightarrow>
             mgr\<lparr>m_nodeMap :=
               map_assign (sourceNodeId (header report))
                 (updatePosition (NodeInfo_ctor (sourceNodeId (header report)) now) report)
                 (m_nodeMap mgr)\<rparr>
         | Some n \<Rightarrow>
             mgr\<lparr>m_nodeMap :=
               map_assign (sourceNodeId (header report))
                 ((updatePosition n report)\<lparr>lastHeardTime := now\<rparr>)
                 (m_nodeMap mgr)\<rparr>))"

definition updateLastHeardTime :: "NodeManager \<Rightarrow> 32 word \<Rightarrow> time_point \<Rightarrow> NodeManager" where
  "updateLastHeardTime mgr ident now =
     (if ident = m_selfNodeId mgr then mgr
      else
        (case map_find ident (m_nodeMap mgr) of
           Some n \<Rightarrow>
             mgr\<lparr>m_nodeMap := map_assign ident (n\<lparr>lastHeardTime := now\<rparr>) (m_nodeMap mgr)\<rparr>
         | None \<Rightarrow>
             mgr\<lparr>m_nodeMap := map_assign ident (NodeInfo_ctor ident now) (m_nodeMap mgr)\<rparr>))"

text \<open>The first loop of \<open>pruneTimeouts\<close> walks the map in key order and appends the
  ids to remove; the second loop erases them one by one.\<close>

fun collect_timeouts :: "int \<Rightarrow> time_point \<Rightarrow> node_map \<Rightarrow> 32 word list \<Rightarrow> 32 word list" where
  "collect_timeouts timeoutDuration now [] nodesToRemove = nodesToRemove"
| "collect_timeouts timeoutDuration now ((k, n) # ps) nodesToRemove =
     (let elapsed = duration_cast_seconds (duration_minus now (lastHeardTime n))
      in if elapsed > timeoutDuration
         then collect_timeouts timeoutDuration now ps (nodesToRemove @ [k])
         else collect_timeouts timeoutDuration now ps nodesToRemove)"

fun erase_nodes :: "32 word list \<Rightarrow> node_map \<Rightarrow> node_map" where
  "erase_nodes [] m = m"
| "erase_nodes (k # ks) m = erase_nodes ks (map_erase k m)"

definition pruneTimeouts :: "NodeManager \<Rightarrow> int \<Rightarrow> time_point \<Rightarrow> NodeManager" where
  "pruneTimeouts mgr timeoutDuration now =
     mgr\<lparr>m_nodeMap :=
       erase_nodes (collect_timeouts timeoutDuration now (m_nodeMap mgr) []) (m_nodeMap mgr)\<rparr>"

definition getNodeList :: "NodeManager \<Rightarrow> NodeInfo list" where
  "getNodeList mgr = map snd (m_nodeMap mgr)"

section \<open>Object bytes of the messages\<close>

text \<open>
  The sender passes the address of a struct and its size to \<open>sendBroadcast\<close>; the
  receiver overlays a \<open>MessageHeader\<close> on the received bytes and copies them into a
  struct with \<open>memcpy\<close>. Both ends run on a little-endian machine, so a field is its
  bytes with the least significant first. Every read below happens after the size checks
  of the receiver, inside the packet.
\<close>

definition le_bytes :: "nat \<Rightarrow> 'a::len word \<Rightarrow> byte list" where
  "le_bytes n w = map (\<lambda>i. ucast (drop_bit (8 * i) w)) [0..<n]"

definition le_word :: "byte list \<Rightarrow> 'a::len word" where
  "le_word bs = foldr (\<lambda>b w. ucast b OR push_bit 8 w) bs 0"

definition read_u32 :: "byte list \<Rightarrow> nat \<Rightarrow> 32 word" where
  "read_u32 bs off = le_word (take 4 (drop off bs))"

definition read_u64 :: "byte list \<Rightarrow> nat \<Rightarrow> 64 word" where
  "read_u64 bs off = le_word (take 8 (drop off bs))"

definition bytes_of_MessageHeader :: "MessageHeader \<Rightarrow> byte list" where
  "bytes_of_MessageHeader h = le_bytes 4 (messageType h) @ le_bytes 4 (sourceNodeId h)"

definition bytes_of_PositionReport :: "PositionReport \<Rightarrow> byte list" where
  "bytes_of_PositionReport r =
     bytes_of_MessageHeader (header r) @
     le_bytes 8 (latitude r) @ le_bytes 8 (longitude r) @ le_bytes 8 (altitude r)"

definition header_of_bytes :: "byte list \<Rightarrow> MessageHeader" where
  "header_of_bytes bs = \<lparr>messageType = read_u32 bs 0, sourceNodeId = read_u32 bs 4\<rparr>"

definition memcpy_PositionReport :: "byte list \<Rightarrow> PositionReport" where
  "memcpy_PositionReport bs =
     \<lparr>header = header_of_bytes bs,
      latitude = read_u64 bs 8, longitude = read_u64 bs 16, altitude = read_u64 bs 24\<rparr>"

section \<open>The transport (NetworkManager.cpp)\<close>

text \<open>
  Only the fields that \<open>sendBroadcast\<close> and \<open>receive\<close> read are kept. What the
  operating system answers to \<open>sendto\<close> and \<open>recvfrom\<close> is an argument: the returned
  count, the code that \<open>WSAGetLastError\<close> reports afterwards and, for a receive, the
  buffer as the call left it and the sender's address. Lines written to the error stream
  are returned beside the result.
\<close>

type_synonym SOCKET = "64 word"

definition INVALID_SOCKET :: SOCKET where
  "INVALID_SOCKET = - 1"

definition SOCKET_ERROR :: int where
  "SOCKET_ERROR = - 1"

definition WSAETIMEDOUT :: int where
  "WSAETIMEDOUT = 10060"

definition WSAECONNRESET :: int where
  "WSAECONNRESET = 10054"

record sockaddr_in =
  sin_port :: "16 word"
  sin_addr :: "32 word"

record ReceivedPacket =
  data :: "byte list"
  senderAddress :: sockaddr_in

record NetworkManager =
  m_initialized :: bool
  m_sendSocket :: SOCKET
  m_recvSocket :: SOCKET
  m_broadcastAddr :: sockaddr_in
  m_port :: "16 word"

record sendto_result =
  sendto_ret :: int
  sendto_error :: int

record recvfrom_result =
  recvfrom_ret :: int
  recvfrom_error :: int
  recvfrom_buffer :: "byte list"
  recvfrom_addr :: sockaddr_in

datatype net_log =
    SendtoFailed int
  | SendtoShort int nat
  | RecvConnReset
  | RecvFailed int

text \<open>\<open>static_cast<int>(size)\<close> keeps the low 32 bits of the size, read as signed.\<close>

definition static_cast_int :: "nat \<Rightarrow> int" where
  "static_cast_int n = signed_take_bit 31 (int n)"

text \<open>\<open>std::vector::resize\<close>: cut, or fill up with zero bytes.\<close>

definition vector_resize :: "nat \<Rightarrow> byte list \<Rightarrow> byte list" where
  "vector_resize n v = take n v @ replicate (n - length v) 0"

definition sendBroadcast ::
  "NetworkManager \<Rightarrow> byte list \<Rightarrow> nat \<Rightarrow> sendto_result \<Rightarrow> bool \<times> net_log list" where
  "sendBroadcast nm buf size' r =
     (if \<not> m_initialized nm \<or> m_sendSocket nm = INVALID_SOCKET then (False, [])
      else
        (let bytesSent = sendto_ret r
         in if bytesSent = SOCKET_ERROR then (False, [SendtoFailed (sendto_error r)])
            else if bytesSent \<noteq> static_cast_int size' then (True, [SendtoShort bytesSent size'])
            else (True, [])))"

definition receive ::
  "NetworkManager \<Rightarrow> recvfrom_result \<Rightarrow> ReceivedPacket option \<times> net_log list" where
  "receive nm r =
     (if \<not> m_initialized nm \<or> m_recvSocket nm = INVALID_SOCKET then (None, [])
      else
        (let bytesReceived = recvfrom_ret r
         in if bytesReceived = SOCKET_ERROR then
              (let error = recvfrom_error r
               in if error = WSAETIMEDOUT then (None, [])
                  else if error = WSAECONNRESET then (None, [RecvConnReset])
                  else (None, [RecvFailed error]))
            else if bytesReceived = 0 then (None, [])
            else
              (Some \<lparr>data = vector_resize (nat bytesReceived) (recvfrom_buffer r),
                     senderAddress = recvfrom_addr r\<rparr>, [])))"

section \<open>The receiver loop (main.cpp)\<close>

text \<open>
  \<open>receiver_dispatch\<close> is the body of the loop of \<open>receiverThreadFunc\<close> from the
  size check of the packet on; \<open>receiver_iteration\<close> is the whole body, with the call
  of \<open>receive\<close> before it. \<open>now1\<close> is the clock reading inside
  \<open>updateLastHeardTime\<close>, \<open>now2\<close> the later one inside \<open>updateNodePosition\<close>.
  A text message is only printed.
\<close>

definition receiver_dispatch ::
  "NodeManager \<Rightarrow> ReceivedPacket \<Rightarrow> time_point \<Rightarrow> time_point \<Rightarrow> NodeManager" where
  "receiver_dispatch nodeManager packet now1 now2 =
     (if length (data packet) < sizeof_MessageHeader then nodeManager
      else
        (let hdr = header_of_bytes (data packet)
         in if sourceNodeId hdr = getSelfNodeId nodeManager then nodeManager
            else
              (let nodeManager1 = updateLastHeardTime nodeManager (sourceNodeId hdr) now1
               in if messageType hdr = POSITION_REPORT_TYPE then
                    (if length (data packet) = sizeof_PositionReport
                     then updateNodePosition nodeManager1
                            (memcpy_PositionReport (data packet)) now2
                     else nodeManager1)
                  else if messageType hdr = HEARTBEAT_TYPE then
                    (if length (data packet) = sizeof_HeartbeatMessage
                     then nodeManager1 else nodeManager1)
                  else if messageType hdr = TEXT_MESSAGE_TYPE then
                    (if length (data packet) = sizeof_TextMessage
                     then nodeManager1 else nodeManager1)
                  else nodeManager1)))"

definition receiver_iteration ::
  "NetworkManager \<Rightarrow> NodeManager \<Rightarrow> recvfrom_result \<Rightarrow> time_point \<Rightarrow> time_point
     \<Rightarrow> NodeManager" where
  "receiver_iteration netMgr nodeManager r now1 now2 =
     (case fst (receive netMgr r) of
        None \<Rightarrow> nodeManager
      | Some packet \<Rightarrow> receiver_dispatch nodeManager packet now1 now2)"

section \<open>Sequences of registry calls\<close>

text \<open>
  A history of the registry is a list of calls, each with the clock reading it made.
  \<open>Touch\<close> is \<open>updateLastHeardTime\<close>, \<open>UpdatePos\<close> is \<open>updateNodePosition\<close>
  (the peer id is the source id of the report), \<open>Prune\<close> is \<open>pruneTimeouts\<close> and
  \<open>Snapshot\<close> is \<open>getNodeList\<close>, which reads no clock and changes nothing.
  The calls are listed in the order in which they take the mutex.
  \<open>update_readings\<close> are the clock readings of the two updating calls, the only ones
  that are ever stored.
\<close>

datatype registry_update =
    Touch "32 word" time_point
  | UpdatePos PositionReport time_point

fun update_id :: "registry_update \<Rightarrow> 32 word" where
  "update_id (Touch i t) = i"
| "update_id (UpdatePos r t) = sourceNodeId (header r)"

fun update_time :: "registry_update \<Rightarrow> time_point" where
  "update_time (Touch i t) = t"
| "update_time (UpdatePos r t) = t"

fun update_report :: "registry_update \<Rightarrow> PositionReport option" where
  "update_report (Touch i t) = None"
| "update_report (UpdatePos r t) = Some r"

fun apply_update :: "NodeManager \<Rightarrow> registry_update \<Rightarrow> NodeManager" where
  "apply_update mgr (Touch i t) = updateLastHeardTime mgr i t"
| "apply_update mgr (UpdatePos r t) = updateNodePosition mgr r t"

definition run_updates :: "NodeManager \<Rightarrow> registry_update list \<Rightarrow> NodeManager" where
  "run_updates mgr us = foldl apply_update mgr us"

datatype registry_op =
    Update registry_update
  | Prune int time_point
  | Snapshot

fun apply_op :: "NodeManager \<Rightarrow> registry_op \<Rightarrow> NodeManager" where
  "apply_op mgr (Update u) = apply_update mgr u"
| "apply_op mgr (Prune timeoutDuration t) = pruneTimeouts mgr timeoutDuration t"
| "apply_op mgr Snapshot = mgr"


definition run_ops :: "NodeManager \<Rightarrow> registry_op list \<Rightarrow> NodeManager" where
  "run_ops mgr ops = foldl apply_op mgr ops"


subsection \<open>What the specification expects of a history\<close>

text \<open>
  These follow the words of the specification, not the code: the time of the most recent
  call for a peer, the position of its most recent position update, and the
  unknown-position value (all three coordinates zero) of a peer that never sent one.
\<close>

definition latest_heard :: "32 word \<Rightarrow> registry_update list \<Rightarrow> time_point option" where
  "latest_heard i us = map_option update_time (find (\<lambda>u. update_id u = i) (rev us))"

definition latest_position :: "32 word \<Rightarrow> registry_update list \<Rightarrow> PositionReport option" where
  "latest_position i us =
     (case find (\<lambda>u. update_id u = i \<and> update_report u \<noteq> None) (rev us) of
        None \<Rightarrow> None
      | Some u \<Rightarrow> update_report u)"

definition unknown_position :: "32 word \<Rightarrow> PositionReport" where
  "unknown_position i =
     \<lparr>header = \<lparr>messageType = POSITION_REPORT_TYPE, sourceNodeId = i\<rparr>,
      latitude = 0, longitude = 0, altitude = 0\<rparr>"

definition expected_entry :: "32 word \<Rightarrow> registry_update list \<Rightarrow> NodeInfo option" where
  "expected_entry i us =
     (case latest_heard i us of
        None \<Rightarrow> None
      | Some t \<Rightarrow>
          Some \<lparr>nodeId = i,
                lastPosition = (case latest_position i us of
                                  None \<Rightarrow> unknown_position i | Some r \<Rightarrow> r),
                lastHeardTime = t\<rparr>)"

text \<open>An entry counts as timed out when its age in whole seconds exceeds the timeout:
  the test of the first loop of \<open>pruneTimeouts\<close>, as a predicate on an entry.\<close>

definition timed_out :: "int \<Rightarrow> time_point \<Rightarrow> 32 word \<times> NodeInfo \<Rightarrow> bool" where
  "timed_out timeoutDuration now p \<longleftrightarrow>
     timeoutDuration < duration_cast_seconds (duration_minus now (lastHeardTime (snd p)))"

text \<open>Every entry is stored under the id it carries.\<close>

definition keys_match :: "node_map \<Rightarrow> bool" where
  "keys_match m = list_all (\<lambda>p. nodeId (snd p) = fst p) m"

section \<open>Facts about the ordered map\<close>

lemma map_find_assign:
  "map_find k (map_assign k' v m) = (if k = k' then Some v else map_find k m)"
  by (induction m) auto


lemma map_erase_filter: "map_erase k m = filter (\<lambda>p. fst p \<noteq> k) m"
  by (induction m) auto

lemma set_map_assign: "set (map_assign k v m) \<subseteq> insert (k, v) (set m)"
  by (induction m) (auto split: if_splits)

lemma map_find_None_iff: "map_find k m = None \<longleftrightarrow> k \<notin> set (map fst m)"
  by (induction m) (auto split: if_splits)

lemma map_ok_distinct: "map_ok m \<Longrightarrow> distinct (map fst m)"
  unfolding map_ok_def by (induction m) auto

lemma map_ok_assign: "map_ok m \<Longrightarrow> map_ok (map_assign k v m)"
  unfolding map_ok_def
proof (induction m)
  case Nil
  then show ?case by simp
next
  case (Cons p ps)
  obtain k' v' where p: "p = (k', v')" by (cases p)
  from Cons.prems have rest: "sorted_wrt (<) (map fst ps)" and low: "\<forall>x\<in>set ps. k' < fst x"
    by (auto simp: p)
  show ?case
  proof (cases "k < k'")
    case True
    with Cons.prems show ?thesis by (auto simp: p)
  next
    case False
    show ?thesis
    proof (cases "k = k'")
      case True
      with Cons.prems show ?thesis by (auto simp: p)
    next
      case ne: False
      with False have "k' < k" by simp
      moreover have "\<forall>x\<in>set (map_assign k v ps). k' < fst x"
        using set_map_assign [of k v ps] low \<open>k' < k\<close> by auto
      ultimately show ?thesis
        using False ne Cons.IH [OF rest] by (simp add: p)
    qed
  qed
qed

lemma map_ok_filter: "map_ok m \<Longrightarrow> map_ok (filter P m)"
  unfolding map_ok_def by (induction m) auto

section \<open>Facts about the object bytes\<close>

lemma le_bytes_Suc: "le_bytes (Suc n) w = ucast w # le_bytes n (drop_bit 8 w)"
  unfolding le_bytes_def
  by (simp add: upt_rec [of 0] map_Suc_upt [symmetric] add.commute del: upt_Suc)

lemma le_word_Cons: "le_word (b # bs) = ucast b OR push_bit 8 (le_word bs)"
  by (simp add: le_word_def)

lemma le_word_le_bytes: "le_word (le_bytes n w) = take_bit (8 * n) w"
proof (induction n arbitrary: w)
  case 0
  then show ?case by (simp add: le_bytes_def le_word_def)
next
  case (Suc n)
  show ?case
    apply (simp add: le_bytes_Suc le_word_Cons Suc)
    apply (rule bit_eqI)
    apply (auto simp add: bit_simps)
    done
qed

lemma length_le_bytes: "length (le_bytes n w) = n"
  by (simp add: le_bytes_def)

lemma le_word_le_bytes_32: "le_word (le_bytes 4 w) = (w :: 32 word)"
  by (simp add: le_word_le_bytes take_bit_word_eq_self)

lemma le_word_le_bytes_64: "le_word (le_bytes 8 w) = (w :: 64 word)"
  by (simp add: le_word_le_bytes take_bit_word_eq_self)

lemma length_bytes_of_PositionReport: "length (bytes_of_PositionReport r) = 32"
  by (simp add: bytes_of_PositionReport_def bytes_of_MessageHeader_def length_le_bytes)

lemma header_of_bytes_of_PositionReport:
  "header_of_bytes (bytes_of_PositionReport r) = header r"
  by (simp add: header_of_bytes_def bytes_of_PositionReport_def bytes_of_MessageHeader_def
      read_u32_def length_le_bytes le_word_le_bytes_32)

lemma memcpy_bytes_of_PositionReport:
  "memcpy_PositionReport (bytes_of_PositionReport r) = r"
  by (simp add: memcpy_PositionReport_def header_of_bytes_of_PositionReport)
     (simp add: bytes_of_PositionReport_def bytes_of_MessageHeader_def
      read_u64_def length_le_bytes le_word_le_bytes_64)

section \<open>Self-addressed updates\<close>

text \<open>
  Claim C4. Calling \<open>updateLastHeardTime\<close> or \<open>updateNodePosition\<close> with the local
  node's own id leaves the registry exactly as it was: no entry is created and none is
  changed, whatever the registry holds and whatever the clock reads.
\<close>

theorem self_id_is_noop:
  "updateLastHeardTime mgr (m_selfNodeId mgr) now = mgr \<and>
   updateNodePosition mgr
     (report\<lparr>header := (header report)\<lparr>sourceNodeId := m_selfNodeId mgr\<rparr>\<rparr>) now = mgr"
  by (simp add: updateLastHeardTime_def updateNodePosition_def)

section \<open>The receiver and malformed packets\<close>

text \<open>
  Claim C5. A packet shorter than the common header is dropped by the receiver before
  anything is decoded and before any registry call: the registry after the iteration is
  the registry before it.
\<close>

theorem undersized_packet_rejected:
  assumes "length (data packet) < sizeof_MessageHeader"
  shows "receiver_dispatch mgr packet now1 now2 = mgr"
  using assms by (simp add: receiver_dispatch_def)

theorem undersized_packet_rejected_witness:
  "length (data \<lparr>data = [1, 0, 0, 0, 7, 0, 0],
                 senderAddress = \<lparr>sin_port = 0, sin_addr = 0\<rparr>\<rparr>) < sizeof_MessageHeader \<and>
   receiver_dispatch (NodeManager_ctor 1)
     \<lparr>data = [1, 0, 0, 0, 7, 0, 0], senderAddress = \<lparr>sin_port = 0, sin_addr = 0\<rparr>\<rparr> 5 6
   = NodeManager_ctor 1"
  using undersized_packet_rejected
    [of "\<lparr>data = [1, 0, 0, 0, 7, 0, 0], senderAddress = \<lparr>sin_port = 0, sin_addr = 0\<rparr>\<rparr>"
      "NodeManager_ctor 1" 5 6]
  by (simp add: sizeof_MessageHeader_def)

text \<open>
  Claim C1, as the code has it. A packet from another node that carries a full header
  and a recognised type but the wrong total size causes no position update; the receiver
  has already called \<open>updateLastHeardTime\<close> for the source id before it looks at the
  type, and that call is the whole effect on the registry: the sender's entry gets the
  new time (or is created with the unknown position), and every other entry is as
  before.
\<close>

theorem wrong_size_only_touches:
  assumes "sizeof_MessageHeader \<le> length (data packet)"
    and "sourceNodeId (header_of_bytes (data packet)) \<noteq> m_selfNodeId mgr"
    and "(messageType (header_of_bytes (data packet)) = POSITION_REPORT_TYPE \<and>
            length (data packet) \<noteq> sizeof_PositionReport) \<or>
         (messageType (header_of_bytes (data packet)) = HEARTBEAT_TYPE \<and>
            length (data packet) \<noteq> sizeof_HeartbeatMessage) \<or>
         (messageType (header_of_bytes (data packet)) = TEXT_MESSAGE_TYPE \<and>
            length (data packet) \<noteq> sizeof_TextMessage)"
  shows "receiver_dispatch mgr packet now1 now2 =
           updateLastHeardTime mgr (sourceNodeId (header_of_bytes (data packet))) now1 \<and>
         map_find (sourceNodeId (header_of_bytes (data packet)))
             (m_nodeMap (receiver_dispatch mgr packet now1 now2)) =
           Some (case map_find (sourceNodeId (header_of_bytes (data packet))) (m_nodeMap mgr) of
                   None \<Rightarrow> NodeInfo_ctor (sourceNodeId (header_of_bytes (data packet))) now1
                 | Some n \<Rightarrow> n\<lparr>lastHeardTime := now1\<rparr>) \<and>
         (\<forall>k. k \<noteq> sourceNodeId (header_of_bytes (data packet)) \<longrightarrow>
              map_find k (m_nodeMap (receiver_dispatch mgr packet now1 now2)) =
              map_find k (m_nodeMap mgr))"
proof -
  have eq: "receiver_dispatch mgr packet now1 now2 =
      updateLastHeardTime mgr (sourceNodeId (header_of_bytes (data packet))) now1"
    using assms
    by (auto simp add: receiver_dispatch_def getSelfNodeId_def Let_def
        POSITION_REPORT_TYPE_def HEARTBEAT_TYPE_def TEXT_MESSAGE_TYPE_def)
  show ?thesis
    unfolding eq using assms(2)
    by (simp add: updateLastHeardTime_def map_find_assign split: option.split)
qed

theorem wrong_size_only_touches_witness:
  "receiver_dispatch (NodeManager_ctor 1)
     \<lparr>data = [2, 0, 0, 0, 7, 0, 0, 0, 9], senderAddress = \<lparr>sin_port = 0, sin_addr = 0\<rparr>\<rparr> 5 6
   = updateLastHeardTime (NodeManager_ctor 1) 7 5"
  using wrong_size_only_touches
    [of "\<lparr>data = [2, 0, 0, 0, 7, 0, 0, 0, 9], senderAddress = \<lparr>sin_port = 0, sin_addr = 0\<rparr>\<rparr>"
      "NodeManager_ctor 1" 5 6]
  by (simp add: sizeof_MessageHeader_def header_of_bytes_def read_u32_def le_word_def
      NodeManager_ctor_def HEARTBEAT_TYPE_def sizeof_HeartbeatMessage_def)

text \<open>
  The claim as the specification words it fails: a nine-byte heartbeat (one byte too
  long) from node 7, received by node 1 with an empty registry, leaves an entry for
  node 7 behind.
\<close>

theorem wrong_size_heartbeat_counterexample:
  "sizeof_MessageHeader \<le>
     length (data \<lparr>data = [2, 0, 0, 0, 7, 0, 0, 0, 9],
                   senderAddress = \<lparr>sin_port = 0, sin_addr = 0\<rparr>\<rparr>) \<and>
   sourceNodeId (header_of_bytes [2, 0, 0, 0, 7, 0, 0, 0, 9]) \<noteq> m_selfNodeId (NodeManager_ctor 1) \<and>
   messageType (header_of_bytes [2, 0, 0, 0, 7, 0, 0, 0, 9]) = HEARTBEAT_TYPE \<and>
   length [2, 0, 0, 0, 7, 0, 0, 0, 9 :: byte] \<noteq> sizeof_HeartbeatMessage \<and>
   receiver_dispatch (NodeManager_ctor 1)
     \<lparr>data = [2, 0, 0, 0, 7, 0, 0, 0, 9], senderAddress = \<lparr>sin_port = 0, sin_addr = 0\<rparr>\<rparr> 5 6
     \<noteq> NodeManager_ctor 1"
  by (simp add: receiver_dispatch_def sizeof_MessageHeader_def header_of_bytes_def read_u32_def
      le_word_def getSelfNodeId_def NodeManager_ctor_def HEARTBEAT_TYPE_def
      POSITION_REPORT_TYPE_def TEXT_MESSAGE_TYPE_def sizeof_HeartbeatMessage_def
      updateLastHeardTime_def NodeInfo_ctor_def PositionReport_ctor_def)

section \<open>Position reports on the wire\<close>

text \<open>
  Claim C8. The object bytes of a position report have exactly the size the receiver
  checks for, and copying them back into a struct gives the report itself, so latitude,
  longitude and altitude arrive bit for bit. When the report has the position type and
  comes from another node, the receiving registry then holds that very report for the
  sender.
\<close>

theorem position_report_roundtrip:
  "length (bytes_of_PositionReport r) = sizeof_PositionReport \<and>
   memcpy_PositionReport (bytes_of_PositionReport r) = r \<and>
   (messageType (header r) = POSITION_REPORT_TYPE \<longrightarrow>
    sourceNodeId (header r) \<noteq> m_selfNodeId mgr \<longrightarrow>
    (\<exists>n. map_find (sourceNodeId (header r))
           (m_nodeMap (receiver_dispatch mgr
              \<lparr>data = bytes_of_PositionReport r, senderAddress = a\<rparr> now1 now2)) = Some n \<and>
         lastPosition n = r \<and> lastHeardTime n = now2))"
  apply (intro conjI impI)
    apply (simp add: length_bytes_of_PositionReport sizeof_PositionReport_def)
   apply (rule memcpy_bytes_of_PositionReport)
  apply (simp add: receiver_dispatch_def length_bytes_of_PositionReport sizeof_PositionReport_def
      sizeof_MessageHeader_def header_of_bytes_of_PositionReport memcpy_bytes_of_PositionReport
      getSelfNodeId_def Let_def)
  apply (simp add: updateNodePosition_def updateLastHeardTime_def map_find_assign
      updatePosition_def split: option.split)
  done

theorem position_report_roundtrip_witness:
  "\<exists>n. map_find 42
         (m_nodeMap (receiver_dispatch (NodeManager_ctor 1)
            \<lparr>data = bytes_of_PositionReport
                 \<lparr>header = \<lparr>messageType = 1, sourceNodeId = 42\<rparr>,
                    latitude = 1, longitude = 2, altitude = 3\<rparr>,
               senderAddress = \<lparr>sin_port = 30000, sin_addr = 5\<rparr>\<rparr> 5 6)) = Some n \<and>
       lastPosition n = \<lparr>header = \<lparr>messageType = 1, sourceNodeId = 42\<rparr>,
                          latitude = 1, longitude = 2, altitude = 3\<rparr> \<and>
       lastHeardTime n = 6"
  using position_report_roundtrip
    [of "\<lparr>header = \<lparr>messageType = 1, sourceNodeId = 42\<rparr>,
           latitude = 1, longitude = 2, altitude = 3\<rparr>"
        "NodeManager_ctor 1" "\<lparr>sin_port = 30000, sin_addr = 5\<rparr>" 5 6]
  by (simp add: POSITION_REPORT_TYPE_def NodeManager_ctor_def)

section \<open>The transport\<close>

text \<open>
  Claim C7. When nothing arrives within the timeout, and when the receive reports a
  connection reset, \<open>receive\<close> returns the empty optional; the receiver loop then goes
  on to its next iteration with the registry untouched. The result type has no separate
  error outcome.
\<close>

theorem receive_timeout_or_reset_is_no_data:
  "fst (receive nm (r\<lparr>recvfrom_ret := SOCKET_ERROR, recvfrom_error := WSAETIMEDOUT\<rparr>)) = None \<and>
   fst (receive nm (r\<lparr>recvfrom_ret := SOCKET_ERROR, recvfrom_error := WSAECONNRESET\<rparr>)) = None \<and>
   receiver_iteration nm mgr (r\<lparr>recvfrom_ret := SOCKET_ERROR, recvfrom_error := WSAETIMEDOUT\<rparr>)
     now1 now2 = mgr \<and>
   receiver_iteration nm mgr (r\<lparr>recvfrom_ret := SOCKET_ERROR, recvfrom_error := WSAECONNRESET\<rparr>)
     now1 now2 = mgr"
  by (simp add: receive_def receiver_iteration_def Let_def)

theorem receive_timeout_or_reset_is_no_data_witness:
  "fst (receive \<lparr>m_initialized = True, m_sendSocket = 3, m_recvSocket = 4,
          m_broadcastAddr = \<lparr>sin_port = 30000, sin_addr = - 1\<rparr>, m_port = 30000\<rparr>
        \<lparr>recvfrom_ret = SOCKET_ERROR, recvfrom_error = WSAECONNRESET,
           recvfrom_buffer = replicate 2048 0,
           recvfrom_addr = \<lparr>sin_port = 0, sin_addr = 0\<rparr>\<rparr>) = None"
  using receive_timeout_or_reset_is_no_data
    [of "\<lparr>m_initialized = True, m_sendSocket = 3, m_recvSocket = 4,
           m_broadcastAddr = \<lparr>sin_port = 30000, sin_addr = - 1\<rparr>, m_port = 30000\<rparr>"
        "\<lparr>recvfrom_ret = SOCKET_ERROR, recvfrom_error = WSAECONNRESET,
           recvfrom_buffer = replicate 2048 0,
           recvfrom_addr = \<lparr>sin_port = 0, sin_addr = 0\<rparr>\<rparr>"]
  by simp

text \<open>
  Claim C9. \<open>sendBroadcast\<close> always returns a boolean, and it returns true exactly
  when the transport is initialised with a valid send socket and \<open>sendto\<close> did not
  report an error; in every other case, the uninitialised transport included, it
  returns false.
\<close>

theorem sendBroadcast_true_iff:
  "fst (sendBroadcast nm buf n r) =
     (m_initialized nm \<and> m_sendSocket nm \<noteq> INVALID_SOCKET \<and> sendto_ret r \<noteq> SOCKET_ERROR)"
  by (simp add: sendBroadcast_def Let_def)

theorem sendBroadcast_true_iff_witness:
  "fst (sendBroadcast \<lparr>m_initialized = True, m_sendSocket = 3, m_recvSocket = 4,
          m_broadcastAddr = \<lparr>sin_port = 30000, sin_addr = - 1\<rparr>, m_port = 30000\<rparr>
        [2, 0, 0, 0, 1, 0, 0, 0] 8 \<lparr>sendto_ret = 8, sendto_error = 0\<rparr>) \<and>
   \<not> fst (sendBroadcast \<lparr>m_initialized = True, m_sendSocket = 3, m_recvSocket = 4,
          m_broadcastAddr = \<lparr>sin_port = 30000, sin_addr = - 1\<rparr>, m_port = 30000\<rparr>
        [2, 0, 0, 0, 1, 0, 0, 0] 8 \<lparr>sendto_ret = - 1, sendto_error = 10051\<rparr>) \<and>
   \<not> fst (sendBroadcast \<lparr>m_initialized = False, m_sendSocket = INVALID_SOCKET,
          m_recvSocket = INVALID_SOCKET,
          m_broadcastAddr = \<lparr>sin_port = 0, sin_addr = 0\<rparr>, m_port = 30000\<rparr>
        [2, 0, 0, 0, 1, 0, 0, 0] 8 \<lparr>sendto_ret = 8, sendto_error = 0\<rparr>)"
  using sendBroadcast_true_iff
    [of "\<lparr>m_initialized = True, m_sendSocket = 3, m_recvSocket = 4,
           m_broadcastAddr = \<lparr>sin_port = 30000, sin_addr = - 1\<rparr>, m_port = 30000\<rparr>"
        "[2, 0, 0, 0, 1, 0, 0, 0]" 8 "\<lparr>sendto_ret = 8, sendto_error = 0\<rparr>"]
    sendBroadcast_true_iff
    [of "\<lparr>m_initialized = True, m_sendSocket = 3, m_recvSocket = 4,
           m_broadcastAddr = \<lparr>sin_port = 30000, sin_addr = - 1\<rparr>, m_port = 30000\<rparr>"
        "[2, 0, 0, 0, 1, 0, 0, 0]" 8 "\<lparr>sendto_ret = - 1, sendto_error = 10051\<rparr>"]
    sendBroadcast_true_iff
    [of "\<lparr>m_initialized = False, m_sendSocket = INVALID_SOCKET, m_recvSocket = INVALID_SOCKET,
           m_broadcastAddr = \<lparr>sin_port = 0, sin_addr = 0\<rparr>, m_port = 30000\<rparr>"
        "[2, 0, 0, 0, 1, 0, 0, 0]" 8 "\<lparr>sendto_ret = 8, sendto_error = 0\<rparr>"]
  by (simp add: INVALID_SOCKET_def SOCKET_ERROR_def)

text \<open>
  Claim C10. When \<open>sendto\<close> reports no error but sends fewer bytes than it was asked
  to, \<open>sendBroadcast\<close> returns true and writes one warning; a full send returns true
  and writes nothing.
\<close>

theorem partial_send_reports_success:
  assumes "m_initialized nm" and "m_sendSocket nm \<noteq> INVALID_SOCKET"
    and "0 \<le> sendto_ret r" and "sendto_ret r < static_cast_int n"
  shows "sendBroadcast nm buf n r = (True, [SendtoShort (sendto_ret r) n]) \<and>
         sendBroadcast nm buf n (r\<lparr>sendto_ret := static_cast_int n\<rparr>) = (True, [])"
  using assms by (auto simp add: sendBroadcast_def Let_def SOCKET_ERROR_def)

theorem partial_send_reports_success_witness:
  "sendBroadcast \<lparr>m_initialized = True, m_sendSocket = 3, m_recvSocket = 4,
       m_broadcastAddr = \<lparr>sin_port = 30000, sin_addr = - 1\<rparr>, m_port = 30000\<rparr>
     [1, 2, 3, 4, 5, 6, 7, 8] 8 \<lparr>sendto_ret = 5, sendto_error = 0\<rparr>
   = (True, [SendtoShort 5 8])"
  using partial_send_reports_success
    [of "\<lparr>m_initialized = True, m_sendSocket = 3, m_recvSocket = 4,
           m_broadcastAddr = \<lparr>sin_port = 30000, sin_addr = - 1\<rparr>, m_port = 30000\<rparr>"
        "\<lparr>sendto_ret = 5, sendto_error = 0\<rparr>" 8 "[1, 2, 3, 4, 5, 6, 7, 8]"]
  by (simp add: INVALID_SOCKET_def static_cast_int_def)

section \<open>Pruning\<close>

lemma collect_timeouts_eq:
  "collect_timeouts T now m acc = acc @ map fst (filter (timed_out T now) m)"
  by (induction m arbitrary: acc) (auto simp: timed_out_def Let_def)

lemma erase_nodes_filter: "erase_nodes ks m = filter (\<lambda>p. fst p \<notin> set ks) m"
  by (induction ks arbitrary: m) (auto simp: map_erase_filter intro: filter_cong)

lemma prune_map_eq:
  assumes "map_ok m"
  shows "erase_nodes (collect_timeouts T now m []) m = filter (\<lambda>p. \<not> timed_out T now p) m"
proof -
  have d: "distinct (map fst m)" using assms by (rule map_ok_distinct)
  have "fst p \<in> fst ` {q \<in> set m. timed_out T now q} \<longleftrightarrow> timed_out T now p"
    if "p \<in> set m" for p
  proof
    assume "fst p \<in> fst ` {q \<in> set m. timed_out T now q}"
    then obtain q where q: "q \<in> set m" "timed_out T now q" "fst q = fst p" by auto
    from d q(1) that q(3) have "q = p"
      by (metis eq_key_imp_eq_value prod.collapse)
    with q(2) show "timed_out T now p" by simp
  next
    assume "timed_out T now p"
    with that show "fst p \<in> fst ` {q \<in> set m. timed_out T now q}" by auto
  qed
  then show ?thesis
    by (auto simp: collect_timeouts_eq erase_nodes_filter intro!: filter_cong)
qed

lemma map_ok_pruneTimeouts:
  "map_ok (m_nodeMap mgr) \<Longrightarrow> map_ok (m_nodeMap (pruneTimeouts mgr T now))"
  by (simp add: pruneTimeouts_def prune_map_eq map_ok_filter)

lemma duration_minus_in_range:
  "- (2 ^ 63) \<le> a - b \<Longrightarrow> a - b < 2 ^ 63 \<Longrightarrow> duration_minus a b = a - b"
  unfolding duration_minus_def by (rule signed_take_bit_int_eq_self) simp_all

text \<open>What the two loops compute on a well-formed map: the entries that the test of the
  first loop does not select stay, unchanged and in order, and all others go.\<close>

lemma pruneTimeouts_keeps:
  assumes "map_ok (m_nodeMap mgr)"
  shows "m_nodeMap (pruneTimeouts mgr T now) =
           filter (\<lambda>p. \<not> T < duration_cast_seconds (duration_minus now (lastHeardTime (snd p))))
             (m_nodeMap mgr) \<and>
         m_selfNodeId (pruneTimeouts mgr T now) = m_selfNodeId mgr"
  using prune_map_eq [OF assms, of T now]
  by (simp add: pruneTimeouts_def timed_out_def)

text \<open>
  Claim C2. \<open>pruneTimeouts\<close> is to remove exactly the entries whose age exceeds the
  timeout and to leave the others as they are. The code does not: it compares the age
  cut down to whole seconds, so an entry that is over the timeout by less than a second
  stays. With a timeout of 15 seconds, the entry of node 7, last heard 15.5 seconds
  before the call, is older than the timeout and is still in the map afterwards.
\<close>

theorem pruneTimeouts_keeps_overdue_entry:
  "map_ok (m_nodeMap \<lparr>m_selfNodeId = 1, m_nodeMap = [(7, NodeInfo_ctor 7 0)]\<rparr>) \<and>
   15 * steady_clock_ticks_per_second < 15500000000 - lastHeardTime (NodeInfo_ctor 7 0) \<and>
   map_find 7 (m_nodeMap (pruneTimeouts
      \<lparr>m_selfNodeId = 1, m_nodeMap = [(7, NodeInfo_ctor 7 0)]\<rparr> 15 15500000000))
     = Some (NodeInfo_ctor 7 0)"
  by (simp add: map_ok_def steady_clock_ticks_per_second_def NodeInfo_ctor_def pruneTimeouts_def
      duration_cast_seconds_def signed_divide_int_def duration_minus_in_range)

section \<open>Histories of updates\<close>

lemma keys_match_assign: "keys_match m \<Longrightarrow> nodeId v = k \<Longrightarrow> keys_match (map_assign k v m)"
  using set_map_assign [of k v m] by (auto simp: keys_match_def list_all_iff)

lemma map_find_keys_match: "keys_match m \<Longrightarrow> map_find k m = Some n \<Longrightarrow> nodeId n = k"
  by (induction m) (auto simp: keys_match_def split: if_splits)

lemma filter_snapshot:
  "map_ok m \<Longrightarrow> keys_match m \<Longrightarrow>
   filter (\<lambda>n. nodeId n = i) (map snd m) = (case map_find i m of None \<Rightarrow> [] | Some v \<Rightarrow> [v])"
proof (induction m)
  case Nil
  then show ?case by simp
next
  case (Cons p ps)
  obtain k v where p: "p = (k, v)" by (cases p)
  from Cons.prems have ok: "map_ok ps" and km: "keys_match ps" and kv: "nodeId v = k"
    and low: "\<forall>x\<in>set ps. k < fst x"
    by (auto simp: p map_ok_def keys_match_def)
  show ?case
  proof (cases "i = k")
    case True
    have "k \<notin> set (map fst ps)" using low by auto
    then have none: "map_find k ps = None" by (simp add: map_find_None_iff)
    have "filter (\<lambda>n. nodeId n = k) (map snd ps) = []"
      using Cons.IH [OF ok km] none True by simp
    with True kv show ?thesis by (simp add: p)
  next
    case False
    with kv Cons.IH [OF ok km] show ?thesis by (auto simp: p)
  qed
qed

lemma self_apply_update: "m_selfNodeId (apply_update mgr u) = m_selfNodeId mgr"
  by (cases u) (auto simp: updateLastHeardTime_def updateNodePosition_def split: option.splits)

lemma map_ok_apply_update:
  "map_ok (m_nodeMap mgr) \<Longrightarrow> map_ok (m_nodeMap (apply_update mgr u))"
  by (cases u)
    (auto simp: updateLastHeardTime_def updateNodePosition_def map_ok_assign split: option.splits)

lemma keys_match_apply_update:
  "keys_match (m_nodeMap mgr) \<Longrightarrow> keys_match (m_nodeMap (apply_update mgr u))"
  by (cases u)
    (auto simp: updateLastHeardTime_def updateNodePosition_def updatePosition_def NodeInfo_ctor_def
      intro!: keys_match_assign dest: map_find_keys_match split: option.splits)

lemma run_updates_snoc: "run_updates mgr (us @ [u]) = apply_update (run_updates mgr us) u"
  by (simp add: run_updates_def)

lemma run_updates_inv:
  "m_selfNodeId (run_updates (NodeManager_ctor self) us) = self \<and>
   map_ok (m_nodeMap (run_updates (NodeManager_ctor self) us)) \<and>
   keys_match (m_nodeMap (run_updates (NodeManager_ctor self) us))"
proof (induction us rule: rev_induct)
  case Nil
  then show ?case by (simp add: run_updates_def NodeManager_ctor_def map_ok_def keys_match_def)
next
  case (snoc u us)
  then show ?case
    by (simp add: run_updates_snoc self_apply_update map_ok_apply_update keys_match_apply_update)
qed

lemma find_conj_None: "find P xs = None \<Longrightarrow> find (\<lambda>u. P u \<and> Q u) xs = None"
  by (auto simp: find_None_iff)

lemma expected_entry_snoc:
  "expected_entry i (us @ [u]) =
     (if update_id u = i
      then Some \<lparr>nodeId = i,
                 lastPosition = (case update_report u of
                    Some r \<Rightarrow> r
                  | None \<Rightarrow> (case expected_entry i us of
                               None \<Rightarrow> unknown_position i | Some n \<Rightarrow> lastPosition n)),
                 lastHeardTime = update_time u\<rparr>
      else expected_entry i us)"
  by (cases u)
    (auto simp: expected_entry_def latest_heard_def latest_position_def find_conj_None
      split: option.splits)

lemma apply_update_lookup:
  assumes "i \<noteq> m_selfNodeId mgr"
  shows "map_find i (m_nodeMap (apply_update mgr u)) =
     (if update_id u = i
      then Some (case update_report u of
            Some r \<Rightarrow> (case map_find i (m_nodeMap mgr) of
                          None \<Rightarrow> (NodeInfo_ctor i (update_time u))\<lparr>lastPosition := r\<rparr>
                        | Some n \<Rightarrow> n\<lparr>lastPosition := r, lastHeardTime := update_time u\<rparr>)
          | None \<Rightarrow> (case map_find i (m_nodeMap mgr) of
                          None \<Rightarrow> NodeInfo_ctor i (update_time u)
                        | Some n \<Rightarrow> n\<lparr>lastHeardTime := update_time u\<rparr>))
      else map_find i (m_nodeMap mgr))"
  using assms
  by (cases u)
    (auto simp: updateLastHeardTime_def updateNodePosition_def updatePosition_def map_find_assign
      split: option.splits)

lemma run_updates_lookup:
  assumes "i \<noteq> self"
  shows "map_find i (m_nodeMap (run_updates (NodeManager_ctor self) us)) = expected_entry i us"
proof (induction us rule: rev_induct)
  case Nil
  then show ?case
    by (simp add: run_updates_def NodeManager_ctor_def expected_entry_def latest_heard_def)
next
  case (snoc u us)
  have self: "i \<noteq> m_selfNodeId (run_updates (NodeManager_ctor self) us)"
    using assms run_updates_inv [of self us] by simp
  show ?case
    unfolding run_updates_snoc apply_update_lookup [OF self] expected_entry_snoc snoc.IH
    by (auto simp: NodeInfo_ctor_def PositionReport_ctor_def unknown_position_def expected_entry_def
        split: option.splits)
qed

lemma latest_heard_Some: "i \<in> update_id ` set us \<Longrightarrow> \<exists>t. latest_heard i us = Some t"
  unfolding latest_heard_def
  by (cases "find (\<lambda>u. update_id u = i) (rev us)") (auto simp: find_None_iff)

text \<open>
  Claim C3. After any sequence of \<open>updateLastHeardTime\<close> and \<open>updateNodePosition\<close>
  calls on a fresh registry, the snapshot holds, for every peer other than the local
  node that occurs in the sequence, exactly one entry with that id; its
  \<open>lastHeardTime\<close> is the clock reading of the most recent call for the peer and its
  position is the report of the peer's most recent position update, or the
  unknown-position value when there was none. This holds for any clock readings, so in
  particular for readings that increase per peer.
\<close>

theorem snapshot_reflects_latest:
  assumes "i \<noteq> self" and "i \<in> update_id ` set us"
  shows "\<exists>t. latest_heard i us = Some t \<and>
    filter (\<lambda>n. nodeId n = i) (getNodeList (run_updates (NodeManager_ctor self) us)) =
      [\<lparr>nodeId = i,
        lastPosition = (case latest_position i us of
                          None \<Rightarrow> unknown_position i | Some r \<Rightarrow> r),
        lastHeardTime = t\<rparr>]"
proof -
  from latest_heard_Some [OF assms(2)] obtain t where t: "latest_heard i us = Some t" ..
  have "filter (\<lambda>n. nodeId n = i) (getNodeList (run_updates (NodeManager_ctor self) us)) =
      (case expected_entry i us of None \<Rightarrow> [] | Some v \<Rightarrow> [v])"
    unfolding getNodeList_def
    using filter_snapshot run_updates_inv [of self us] run_updates_lookup [OF assms(1), of us]
    by simp
  with t show ?thesis by (simp add: expected_entry_def)
qed

theorem snapshot_reflects_latest_witness:
  "filter (\<lambda>n. nodeId n = 42)
     (getNodeList (run_updates (NodeManager_ctor 1)
        [UpdatePos \<lparr>header = \<lparr>messageType = 1, sourceNodeId = 42\<rparr>,
                     latitude = 1, longitude = 2, altitude = 3\<rparr> 0,
         Touch 43 5,
         Touch 42 10])) =
   [\<lparr>nodeId = 42,
      lastPosition = \<lparr>header = \<lparr>messageType = 1, sourceNodeId = 42\<rparr>,
                       latitude = 1, longitude = 2, altitude = 3\<rparr>,
      lastHeardTime = 10\<rparr>]"
  using snapshot_reflects_latest
    [of 42 1 "[UpdatePos \<lparr>header = \<lparr>messageType = 1, sourceNodeId = 42\<rparr>,
                     latitude = 1, longitude = 2, altitude = 3\<rparr> 0,
         Touch 43 5,
         Touch 42 10]"]
  by (simp add: latest_heard_def latest_position_def)

section \<open>Histories with pruning and snapshots\<close>






text \<open>Every registry reached from a fresh one is a well-formed map, so the
  well-formedness that the pruning lemma asks for always holds in the program.\<close>

lemma map_ok_apply_op: "map_ok (m_nodeMap mgr) \<Longrightarrow> map_ok (m_nodeMap (apply_op mgr x))"
  by (cases x) (simp_all add: map_ok_apply_update map_ok_pruneTimeouts)

lemma map_ok_run_ops: "map_ok (m_nodeMap mgr) \<Longrightarrow> map_ok (m_nodeMap (run_ops mgr ops))"
  by (induction ops arbitrary: mgr) (simp_all add: run_ops_def map_ok_apply_op)

lemma map_ok_reachable: "map_ok (m_nodeMap (run_ops (NodeManager_ctor self) ops))"
  by (rule map_ok_run_ops) (simp add: NodeManager_ctor_def map_ok_def)




end
